theory Spec2Isabelle
  imports Main
begin

section \<open>Data model of the application state orchestrator\<close>

text \<open>
  The orchestrator is the React provider \<open>AppProvider\<close>. Its entity types are imported
  from a types module; the records below carry the fields the provider reads or
  writes. An object spread \<open>{ ...x, field: v }\<close> is a record update, which keeps every
  other field.
\<close>

type_synonym knowledgeLevel = string

type_synonym flashcard = string

record lesson =
  lesson_id :: string
  lesson_content :: string
  lesson_notes :: "string option"
  flashcards :: "flashcard list option"

record courseModule =
  module_title :: string
  lessons :: "lesson list"

record course =
  course_id :: string
  title :: string
  knowledgeLevel :: knowledgeLevel
  modules :: "courseModule list"

record folder =
  folder_id :: string
  folder_name :: string
  courseIds :: "string list"

record project =
  project_id :: string
  project_title :: string

text \<open>
  \<open>Progress\<close> is a JavaScript \<open>Map\<close> from lesson id to completion timestamp; the list
  holds its entries in iteration (insertion) order. \<open>progressData\<close> is an object keyed
  by course id; the list holds its own enumerable properties in \<open>for ... in\<close> order.
\<close>

type_synonym progress = "(string \<times> int) list"

type_synonym projectProgress = "(string \<times> bool) list"

type_synonym quizData = string

type_synonym relatedTopic = string

record exploreModalState =
  explore_isOpen :: bool
  explore_isLoading :: bool
  courseTitle :: string
  topics :: "relatedTopic list"

record preloadedTestState =
  test_topic :: string
  difficulty :: knowledgeLevel
  questions :: "quizData list"

datatype role = User | Model

record chatMessage =
  role :: role
  message_content :: string

text \<open>The Socratic session lives in the \<open>App\<close> component and is handed to the provider's
  handlers together with its setter.\<close>

record socraticState =
  isOpen :: bool
  originalText :: string
  history :: "chatMessage list"
  isLoading :: bool

text \<open>
  A value caught by \<open>catch (e)\<close>: the handlers only ask whether it is an \<open>Error\<close>
  instance, and then read its message.
\<close>

datatype thrown = ErrorInstance string | NonError

text \<open>
  Every call that leaves the provider is recorded, in order: the view-transition
  callbacks handed to a handler, the generation client, the storage service and the
  console.
\<close>

datatype call =
    SetViewCourse
  | SetViewGenerating
  | SetViewCanvas
  | SetViewProject
  | SetViewProjects
  | NavigateToAssessment
  | Gemini_generateFunFacts string
  | Gemini_generateCourse string knowledgeLevel
  | Gemini_generateLessonFlashcards lesson
  | Gemini_generateProjectScaffold string
  | Gemini_generateTestFromCourse course
  | Storage_saveCourse course
  | Storage_updateCourse course
  | Storage_deleteCourse string
  | Storage_deleteProgress string
  | Storage_saveFolders "folder list"
  | Storage_saveProject project
  | Storage_toggleLessonProgress string string
  | Console_error

text \<open>
  The provider's state hooks, followed by the two parts of the environment the
  handlers act on: the log of outgoing calls and the progress records held by the
  storage service.
\<close>

record appState =
  courses :: "course list"
  folders :: "folder list"
  projects :: "project list"
  progressData :: "(string \<times> progress) list"
  projectProgressData :: "(string \<times> projectProgress) list"
  activeCourse :: "course option"
  activeProject :: "project option"
  topic :: string
  error :: "string option"
  funFacts :: "string list"
  generatingLessonFlashcardId :: "string option"
  preloadedTest :: "preloadedTestState option"
  exploreModal :: exploreModalState
  calls :: "call list"
  storedProgress :: "(string \<times> progress) list"

section \<open>Object helpers\<close>

text \<open>
  \<open>{ ...prev, [k]: v }\<close> overwrites the property \<open>k\<close> where it stands, or adds it
  last; \<open>delete obj[k]\<close> removes it. (A property name that is an array index would
  be enumerated before the others; the ids are taken not to be such names.)
\<close>

fun obj_assign :: "string \<Rightarrow> 'v \<Rightarrow> (string \<times> 'v) list \<Rightarrow> (string \<times> 'v) list" where
  "obj_assign k v [] = [(k, v)]"
| "obj_assign k v (p # ps) = (if fst p = k then (k, v) # ps else p # obj_assign k v ps)"

definition obj_delete :: "string \<Rightarrow> (string \<times> 'v) list \<Rightarrow> (string \<times> 'v) list" where
  "obj_delete k ps = filter (\<lambda>p. fst p \<noteq> k) ps"

text \<open>\<open>Array.prototype.findIndex\<close>, with \<open>None\<close> for \<open>-1\<close>.\<close>

fun findIndex :: "('a \<Rightarrow> bool) \<Rightarrow> 'a list \<Rightarrow> nat option" where
  "findIndex P [] = None"
| "findIndex P (x # xs) =
     (if P x then Some 0 else (case findIndex P xs of None \<Rightarrow> None | Some i \<Rightarrow> Some (Suc i)))"

text \<open>
  \<open>folders.map(f => ({ ...f, courseIds: f.courseIds.filter(id => id !== courseId) }))\<close>,
  the first statement of both \<open>handleDeleteCourse\<close> and \<open>handleMoveCourseToFolder\<close>.
\<close>

definition stripCourse :: "string \<Rightarrow> folder list \<Rightarrow> folder list" where
  "stripCourse courseId fs =
     map (\<lambda>f. f\<lparr>courseIds := filter (\<lambda>i. i \<noteq> courseId) (courseIds f)\<rparr>) fs"

definition logCalls :: "call list \<Rightarrow> appState \<Rightarrow> appState" where
  "logCalls cs s = s\<lparr>calls := calls s @ cs\<rparr>"

section \<open>Deleting a course\<close>

text \<open>
  Modelled from the spec: \<open>storageService.deleteProgress\<close> is not part of the sources;
  the specification has it delete the course's progress record from storage.
\<close>

definition storage_deleteProgress :: "string \<Rightarrow> (string \<times> progress) list \<Rightarrow> (string \<times> progress) list" where
  "storage_deleteProgress courseId stored = obj_delete courseId stored"

text \<open>
  The handler is made by a render of the provider and reads the \<open>courses\<close> and \<open>folders\<close>
  of that render. \<open>setCourses\<close> and \<open>setFolders\<close> are given the values computed from
  them; \<open>setProgressData\<close> is given an updater, which acts on the current progress data.
  \<open>render\<close> is the state the render showed and \<open>s\<close> the state the setters act on.
\<close>

definition handleDeleteCourse :: "string \<Rightarrow> appState \<Rightarrow> appState \<Rightarrow> appState" where
  "handleDeleteCourse courseId render s =
     (let remainingCourses = filter (\<lambda>c. course_id c \<noteq> courseId) (courses render);
          updatedFolders = stripCourse courseId (folders render)
      in s\<lparr>courses := remainingCourses,
           folders := updatedFolders,
           progressData := obj_delete courseId (progressData s),
           calls := calls s @ [Storage_deleteCourse courseId, Storage_deleteProgress courseId],
           storedProgress := storage_deleteProgress courseId (storedProgress s)\<rparr>)"

text \<open>
  A sequence of delete operations. Between two of them the provider may or may not
  have rendered again: \<open>Delete\<close> runs the handler of the last render on the current
  state, \<open>Rerender\<close> makes the current state the one later handlers read. The pair is
  (state of the last render, current state).
\<close>

datatype event = Delete string | Rerender

fun step :: "event \<Rightarrow> appState \<times> appState \<Rightarrow> appState \<times> appState" where
  "step (Delete courseId) (render, s) = (render, handleDeleteCourse courseId render s)"
| "step Rerender (render, s) = (s, s)"

definition runDeletes :: "event list \<Rightarrow> appState \<Rightarrow> appState \<times> appState" where
  "runDeletes evs s = foldl (\<lambda>p e. step e p) (s, s) evs"

definition course_ids :: "appState \<Rightarrow> string list" where
  "course_ids s = map course_id (courses s)"

definition no_dangling :: "appState \<Rightarrow> bool" where
  "no_dangling s \<longleftrightarrow>
     (\<forall>f \<in> set (folders s). \<forall>c \<in> set (courseIds f). c \<in> set (course_ids s)) \<and>
     (\<forall>k \<in> set (map fst (progressData s)). k \<in> set (course_ids s))"

definition unreferenced :: "string \<Rightarrow> appState \<Rightarrow> bool" where
  "unreferenced c s \<longleftrightarrow>
     (\<forall>f \<in> set (folders s). c \<notin> set (courseIds f)) \<and>
     c \<notin> set (map fst (progressData s)) \<and>
     c \<notin> set (course_ids s)"

definition progressKeys :: "appState \<Rightarrow> string set" where
  "progressKeys s = set (map fst (progressData s))"

section \<open>Generating a course\<close>

text \<open>
  \<open>if (folderId)\<close> and \<open>if (targetFolderId)\<close>: \<open>null\<close> and the empty string are falsy.
\<close>

definition truthy :: "string option \<Rightarrow> bool" where
  "truthy x = (case x of None \<Rightarrow> False | Some v \<Rightarrow> v \<noteq> [])"

text \<open>\<open>e instanceof Error ? e.message : fallback\<close>\<close>

definition messageOr :: "string \<Rightarrow> thrown \<Rightarrow> string" where
  "messageOr fallback e = (case e of ErrorInstance m \<Rightarrow> m | NonError \<Rightarrow> fallback)"

text \<open>
  An asynchronous handler runs in two parts. The first part runs to the \<open>await\<close>; the
  second runs when the generation client settles, with \<open>Inr\<close> for the resolved value
  and \<open>Inl\<close> for the rejection, on the state as it is then. What the handler captured
  before the \<open>await\<close> (its closure) is passed on explicitly.
\<close>

definition handleGenerateCourse_begin :: "string \<Rightarrow> knowledgeLevel \<Rightarrow> appState \<Rightarrow> appState" where
  "handleGenerateCourse_begin tp level s =
     s\<lparr>topic := tp, error := None, funFacts := [],
       calls := calls s @ [SetViewGenerating, Gemini_generateFunFacts tp,
                           Gemini_generateCourse tp level]\<rparr>"

text \<open>The fun-fact request settles on its own: \<open>.then(setFunFacts).catch(console.error)\<close>.\<close>

definition funFacts_settled :: "thrown + string list \<Rightarrow> appState \<Rightarrow> appState" where
  "funFacts_settled r s =
     (case r of Inr facts \<Rightarrow> s\<lparr>funFacts := facts\<rparr> | Inl e \<Rightarrow> logCalls [Console_error] s)"

definition handleGenerateCourse_resume ::
    "string option \<Rightarrow> folder list \<Rightarrow> thrown + course \<Rightarrow> appState \<Rightarrow> appState" where
  "handleGenerateCourse_resume folderId capturedFolders r s =
     (case r of
        Inr generatedCourse \<Rightarrow>
          (let s1 = logCalls [Storage_saveCourse generatedCourse] s;
               s2 = (if truthy folderId
                     then (let updatedFolders =
                                 map (\<lambda>f. if Some (folder_id f) = folderId
                                          then f\<lparr>courseIds := courseIds f @ [course_id generatedCourse]\<rparr>
                                          else f) capturedFolders
                           in logCalls [Storage_saveFolders updatedFolders]
                                (s1\<lparr>folders := updatedFolders\<rparr>))
                     else s1)
           in logCalls [SetViewCourse]
                (s2\<lparr>courses := generatedCourse # courses s2,
                    activeCourse := Some generatedCourse\<rparr>))
      | Inl e \<Rightarrow>
          (let errorMessage = messageOr ''An unknown error occurred.'' e
           in logCalls [SetViewCanvas]
                ((logCalls [Console_error] s)
                   \<lparr>error := Some (''Failed to generate the course. '' @ errorMessage @
                                    ''. Please try again.'')\<rparr>)))"

text \<open>One run of the handler with nothing else happening in between.\<close>

definition handleGenerateCourse ::
    "string \<Rightarrow> knowledgeLevel \<Rightarrow> string option \<Rightarrow> thrown + string list \<Rightarrow> thrown + course \<Rightarrow>
     appState \<Rightarrow> appState" where
  "handleGenerateCourse tp level folderId facts r s =
     handleGenerateCourse_resume folderId (folders s) r
       (funFacts_settled facts (handleGenerateCourse_begin tp level s))"

text \<open>The calls a run added to the log.\<close>

definition newCalls :: "appState \<Rightarrow> appState \<Rightarrow> call list" where
  "newCalls s s' = drop (length (calls s)) (calls s')"

section \<open>Selecting\<close>

definition handleSelectCourse :: "string \<Rightarrow> appState \<Rightarrow> appState" where
  "handleSelectCourse courseId s =
     (case find (\<lambda>c. course_id c = courseId) (courses s) of
        None \<Rightarrow> s
      | Some c \<Rightarrow> s\<lparr>activeCourse := Some c\<rparr>)"

definition handleSelectProject :: "string \<Rightarrow> appState \<Rightarrow> appState" where
  "handleSelectProject projectId s =
     (case find (\<lambda>p. project_id p = projectId) (projects s) of
        None \<Rightarrow> s
      | Some p \<Rightarrow> s\<lparr>activeProject := Some p\<rparr>)"

section \<open>Toggling a lesson\<close>

text \<open>
  The progress map recorded for a course, an empty map when there is no record.
\<close>

definition progressOf :: "(string \<times> progress) list \<Rightarrow> string \<Rightarrow> progress" where
  "progressOf pd courseId = (case map_of pd courseId of None \<Rightarrow> [] | Some m \<Rightarrow> m)"

text \<open>
  Modelled from the spec: \<open>storageService.toggleLessonProgress\<close> is not part of the
  sources. The specification has it read, modify and write the one progress record of
  the course, a mapping from lesson id to completion timestamp, where toggling a lesson
  inserts or removes its entry, and return the updated map. The timestamp of an
  inserted entry is the time \<open>now\<close> of the toggle.
\<close>

definition storage_toggleLessonProgress ::
    "int \<Rightarrow> string \<Rightarrow> string \<Rightarrow> (string \<times> progress) list \<Rightarrow> progress \<times> (string \<times> progress) list" where
  "storage_toggleLessonProgress now courseId lessonId stored =
     (let current = progressOf stored courseId;
          newProgress = (if lessonId \<in> set (map fst current)
                         then obj_delete lessonId current
                         else current @ [(lessonId, now)])
      in (newProgress, obj_assign courseId newProgress stored))"

definition handleToggleLessonComplete :: "int \<Rightarrow> string \<Rightarrow> string \<Rightarrow> appState \<Rightarrow> appState" where
  "handleToggleLessonComplete now courseId lessonId s =
     (let (newProgress, stored) = storage_toggleLessonProgress now courseId lessonId (storedProgress s)
      in s\<lparr>progressData := obj_assign courseId newProgress (progressData s),
           calls := calls s @ [Storage_toggleLessonProgress courseId lessonId],
           storedProgress := stored\<rparr>)"

section \<open>Moving a course to a folder\<close>

definition handleMoveCourseToFolder :: "string \<Rightarrow> string option \<Rightarrow> appState \<Rightarrow> appState" where
  "handleMoveCourseToFolder courseId targetFolderId s =
     (let stripped = stripCourse courseId (folders s);
          updatedFolders =
            (if truthy targetFolderId
             then (case findIndex (\<lambda>f. Some (folder_id f) = targetFolderId) stripped of
                     None \<Rightarrow> stripped
                   | Some folderIndex \<Rightarrow>
                       stripped[folderIndex :=
                         (stripped ! folderIndex)
                           \<lparr>courseIds := courseIds (stripped ! folderIndex) @ [courseId]\<rparr>])
             else stripped)
      in s\<lparr>folders := updatedFolders,
           calls := calls s @ [Storage_saveFolders updatedFolders]\<rparr>)"

section \<open>Lesson flashcards and notes\<close>

definition setFlashcards :: "string \<Rightarrow> flashcard list \<Rightarrow> course \<Rightarrow> course" where
  "setFlashcards lessonId generatedCards c =
     c\<lparr>modules := map (\<lambda>m. m\<lparr>lessons :=
          map (\<lambda>l. if lesson_id l = lessonId then l\<lparr>flashcards := Some generatedCards\<rparr> else l)
            (lessons m)\<rparr>) (modules c)\<rparr>"

definition setNote :: "string \<Rightarrow> string \<Rightarrow> course \<Rightarrow> course" where
  "setNote lessonId note c =
     c\<lparr>modules := map (\<lambda>m. m\<lparr>lessons :=
          map (\<lambda>l. if lesson_id l = lessonId then l\<lparr>lesson_notes := Some note\<rparr> else l)
            (lessons m)\<rparr>) (modules c)\<rparr>"

definition replaceCourse :: "course \<Rightarrow> course list \<Rightarrow> course list" where
  "replaceCourse updatedCourse prev =
     map (\<lambda>c. if course_id c = course_id updatedCourse then updatedCourse else c) prev"

text \<open>
  The first part returns the active course it captured when it reached the \<open>await\<close>, and
  \<open>None\<close> when the handler has already returned (no active course, or the lesson was
  not found and the \<open>catch\<close> and \<open>finally\<close> blocks have run).
\<close>

definition handleGenerateLessonFlashcards_begin ::
    "string \<Rightarrow> appState \<Rightarrow> appState \<times> course option" where
  "handleGenerateLessonFlashcards_begin lessonId s =
     (case activeCourse s of
        None \<Rightarrow> (s, None)
      | Some ac \<Rightarrow>
          (let s1 = s\<lparr>generatingLessonFlashcardId := Some lessonId\<rparr>
           in case find (\<lambda>l. lesson_id l = lessonId) (concat (map lessons (modules ac))) of
                None \<Rightarrow> ((logCalls [Console_error] s1)\<lparr>generatingLessonFlashcardId := None\<rparr>, None)
              | Some l \<Rightarrow> (logCalls [Gemini_generateLessonFlashcards l] s1, Some ac)))"

definition handleGenerateLessonFlashcards_resume ::
    "string \<Rightarrow> course \<Rightarrow> thrown + flashcard list \<Rightarrow> appState \<Rightarrow> appState" where
  "handleGenerateLessonFlashcards_resume lessonId ac r s =
     (case r of
        Inr generatedCards \<Rightarrow>
          (let updatedCourse = setFlashcards lessonId generatedCards ac
           in (logCalls [Storage_updateCourse updatedCourse] s)
                \<lparr>activeCourse := Some updatedCourse,
                 courses := replaceCourse updatedCourse (courses s),
                 generatingLessonFlashcardId := None\<rparr>)
      | Inl e \<Rightarrow> (logCalls [Console_error] s)\<lparr>generatingLessonFlashcardId := None\<rparr>)"

definition handleGenerateLessonFlashcards ::
    "string \<Rightarrow> thrown + flashcard list \<Rightarrow> appState \<Rightarrow> appState" where
  "handleGenerateLessonFlashcards lessonId r s =
     (case handleGenerateLessonFlashcards_begin lessonId s of
        (s1, None) \<Rightarrow> s1
      | (s1, Some ac) \<Rightarrow> handleGenerateLessonFlashcards_resume lessonId ac r s1)"

definition handleSaveNote :: "string \<Rightarrow> string \<Rightarrow> string \<Rightarrow> appState \<Rightarrow> appState" where
  "handleSaveNote courseId lessonId note s =
     (case find (\<lambda>c. course_id c = courseId) (courses s) of
        None \<Rightarrow> s
      | Some courseToUpdate \<Rightarrow>
          (let updatedCourse = setNote lessonId note courseToUpdate;
               s1 = (logCalls [Storage_updateCourse updatedCourse] s)
                      \<lparr>courses := replaceCourse updatedCourse (courses s)\<rparr>
           in if (case activeCourse s of None \<Rightarrow> False | Some a \<Rightarrow> course_id a = courseId)
              then s1\<lparr>activeCourse := Some updatedCourse\<rparr>
              else s1))"

section \<open>Socratic dialogue\<close>

definition fallbackTurn :: chatMessage where
  "fallbackTurn =
     \<lparr>role = Model, message_content = ''I'' @ [CHR 0x27] @ ''m having trouble thinking. Please try again.''\<rparr>"

definition handleCloseSocraticModal :: "socraticState \<Rightarrow> socraticState" where
  "handleCloseSocraticModal cur = \<lparr>isOpen = False, originalText = [], history = [], isLoading = False\<rparr>"

text \<open>
  The handler receives the session \<open>socraticState\<close> of the render that called it, and
  writes through the setter to the session \<open>cur\<close> as it is at that moment. The first
  part also returns \<open>newHistory\<close>, which with \<open>socraticState.originalText\<close> is the request
  to \<open>continueSocraticDialogue\<close>.
\<close>

definition handleSendSocraticMessage_begin ::
    "string \<Rightarrow> socraticState \<Rightarrow> socraticState \<Rightarrow> socraticState \<times> chatMessage list" where
  "handleSendSocraticMessage_begin message socraticState cur =
     (let newHistory = history socraticState @ [\<lparr>role = User, message_content = message\<rparr>]
      in (cur\<lparr>history := newHistory, isLoading := True\<rparr>, newHistory))"

definition handleSendSocraticMessage_resume ::
    "chatMessage list \<Rightarrow> thrown + string \<Rightarrow> socraticState \<Rightarrow> socraticState" where
  "handleSendSocraticMessage_resume newHistory r cur =
     (case r of
        Inr aiResponse \<Rightarrow>
          cur\<lparr>history := newHistory @ [\<lparr>role = Model, message_content = aiResponse\<rparr>],
              isLoading := False\<rparr>
      | Inl e \<Rightarrow> cur\<lparr>history := newHistory @ [fallbackTurn], isLoading := False\<rparr>)"

section \<open>Projects and tests\<close>

definition handleCreateProject_begin :: "string \<Rightarrow> appState \<Rightarrow> appState" where
  "handleCreateProject_begin projectTopic s =
     s\<lparr>topic := projectTopic, error := None, funFacts := [],
       calls := calls s @ [SetViewGenerating, Gemini_generateFunFacts projectTopic,
                           Gemini_generateProjectScaffold projectTopic]\<rparr>"

definition handleCreateProject_resume :: "thrown + project \<Rightarrow> appState \<Rightarrow> appState" where
  "handleCreateProject_resume r s =
     (case r of
        Inr generatedProject \<Rightarrow>
          logCalls [SetViewProject]
            ((logCalls [Storage_saveProject generatedProject] s)
               \<lparr>projects := generatedProject # projects s,
                activeProject := Some generatedProject\<rparr>)
      | Inl e \<Rightarrow>
          (let errorMessage = messageOr ''An unknown error occurred.'' e
           in logCalls [SetViewProjects]
                ((logCalls [Console_error] s)
                   \<lparr>error := Some (''Failed to generate the project. '' @ errorMessage @
                                    ''. Please try again.'')\<rparr>)))"

definition handleTestCourseConcepts_begin :: "course \<Rightarrow> appState \<Rightarrow> appState" where
  "handleTestCourseConcepts_begin c s = logCalls [Gemini_generateTestFromCourse c] s"

definition handleTestCourseConcepts_resume ::
    "course \<Rightarrow> thrown + quizData list \<Rightarrow> appState \<Rightarrow> appState" where
  "handleTestCourseConcepts_resume c r s =
     (case r of
        Inr qs \<Rightarrow>
          logCalls [NavigateToAssessment]
            (s\<lparr>preloadedTest :=
                 Some \<lparr>test_topic = title c, difficulty = knowledgeLevel c, questions = qs\<rparr>\<rparr>)
      | Inl e \<Rightarrow>
          (logCalls [Console_error] s)
            \<lparr>error := Some (messageOr ''Could not generate the test for this course.'' e)\<rparr>)"

section \<open>The last active course\<close>

text \<open>
  The body of the inner loop, for one timestamp of the course \<open>courseId\<close>, on the pair
  \<open>(lastTimestamp, lastCourseId)\<close>.
\<close>

definition scanTimestamp :: "string \<Rightarrow> int \<times> string option \<Rightarrow> int \<Rightarrow> int \<times> string option" where
  "scanTimestamp courseId acc timestamp =
     (if timestamp > fst acc then (timestamp, Some courseId) else acc)"

definition scanCourse :: "int \<times> string option \<Rightarrow> string \<times> progress \<Rightarrow> int \<times> string option" where
  "scanCourse acc entry = foldl (scanTimestamp (fst entry)) acc (map snd (snd entry))"

definition lastActiveCourseId :: "(string \<times> progress) list \<Rightarrow> string option" where
  "lastActiveCourseId pd =
     (if pd = [] then None else snd (foldl scanCourse (0, None) pd))"

section \<open>Notions the properties are stated with\<close>

text \<open>The folders whose membership list holds a course id.\<close>

definition holders :: "string \<Rightarrow> appState \<Rightarrow> folder list" where
  "holders c s = filter (\<lambda>f. c \<in> set (courseIds f)) (folders s)"

text \<open>The lessons a progress map marks complete.\<close>

definition lessonIds :: "progress \<Rightarrow> string set" where
  "lessonIds p = set (map fst p)"

text \<open>
  All completion timestamps of the progress data, and the first course in iteration
  order whose progress map holds the greatest of them.
\<close>

definition allTimestamps :: "(string \<times> progress) list \<Rightarrow> int list" where
  "allTimestamps pd = concat (map (\<lambda>entry. map snd (snd entry)) pd)"

definition holdsTimestamp :: "int \<Rightarrow> string \<times> progress \<Rightarrow> bool" where
  "holdsTimestamp t entry \<longleftrightarrow> t \<in> set (map snd (snd entry))"

definition firstHolder :: "(string \<times> progress) list \<Rightarrow> string option" where
  "firstHolder pd = map_option fst (find (holdsTimestamp (Max (set (allTimestamps pd)))) pd)"

text \<open>
  The last active course as the specification words it: the course holding the
  maximum timestamp, \<open>null\<close> when all progress maps are empty, the first one met on a
  tie.
\<close>

definition latestCourse_claimed :: "(string \<times> progress) list \<Rightarrow> string option" where
  "latestCourse_claimed pd = (if allTimestamps pd = [] then None else firstHolder pd)"

text \<open>
  The same with \<open>null\<close> whenever no timestamp is greater than zero, which is what the
  scan computes for any numbers: it starts from \<open>lastTimestamp = 0\<close>.
\<close>

definition latestCourse :: "(string \<times> progress) list \<Rightarrow> string option" where
  "latestCourse pd = (if \<forall>t \<in> set (allTimestamps pd). t \<le> 0 then None else firstHolder pd)"

section \<open>Example states\<close>

definition example_lesson :: lesson where
  "example_lesson = \<lparr>lesson_id = ''l1'', lesson_content = ''Light reactions'',
     lesson_notes = None, flashcards = None\<rparr>"

definition example_course :: "string \<Rightarrow> course" where
  "example_course i = \<lparr>course_id = i, title = ''Photosynthesis'', knowledgeLevel = ''beginner'',
     modules = [\<lparr>module_title = ''Basics'', lessons = [example_lesson]\<rparr>]\<rparr>"

definition initialState :: appState where
  "initialState = \<lparr>courses = [], folders = [], projects = [], progressData = [],
     projectProgressData = [], activeCourse = None, activeProject = None, topic = [],
     error = None, funFacts = [], generatingLessonFlashcardId = None, preloadedTest = None,
     exploreModal = \<lparr>explore_isOpen = False, explore_isLoading = False, courseTitle = [],
       topics = []\<rparr>,
     calls = [], storedProgress = []\<rparr>"

definition example_state :: appState where
  "example_state = initialState\<lparr>
     courses := [example_course ''c1'', example_course ''c2''],
     folders := [\<lparr>folder_id = ''fA'', folder_name = ''A'', courseIds = [''c1'', ''c2'']\<rparr>,
                 \<lparr>folder_id = ''fB'', folder_name = ''B'', courseIds = []\<rparr>],
     progressData := [(''c1'', [(''l1'', 5)])],
     storedProgress := [(''c1'', [(''l1'', 5)])]\<rparr>"

definition example_progressData :: "(string \<times> progress) list" where
  "example_progressData =
     [(''c1'', [(''l1'', 3), (''l2'', 9)]), (''c2'', [(''l1'', 9)]), (''c3'', [(''l1'', 4)])]"

definition example_session :: socraticState where
  "example_session = \<lparr>isOpen = True, originalText = ''Plants make sugar from light.'',
     history = [\<lparr>role = User, message_content = ''What is light for?''\<rparr>,
                \<lparr>role = Model, message_content = ''What do you think?''\<rparr>],
     isLoading = False\<rparr>"

section \<open>Deleting courses leaves no dangling reference\<close>

lemma handleDeleteCourse_progressKeys:
  "progressKeys (handleDeleteCourse c render s) = progressKeys s - {c}"
  by (auto simp: progressKeys_def handleDeleteCourse_def obj_delete_def Let_def)

lemma handleDeleteCourse_no_dangling:
  assumes "no_dangling render" and "progressKeys s \<subseteq> progressKeys render"
  shows "no_dangling (handleDeleteCourse c render s)"
proof -
  have ids: "set (course_ids (handleDeleteCourse c render s)) = set (course_ids render) - {c}"
    by (auto simp: handleDeleteCourse_def course_ids_def Let_def)
  have fs: "\<forall>f \<in> set (folders (handleDeleteCourse c render s)).
              \<forall>i \<in> set (courseIds f). i \<in> set (course_ids render) - {c}"
    using assms(1)
    by (auto simp: no_dangling_def handleDeleteCourse_def stripCourse_def Let_def)
  have "progressKeys render \<subseteq> set (course_ids render)"
    using assms(1) by (auto simp: no_dangling_def progressKeys_def)
  with assms(2) have "progressKeys s - {c} \<subseteq> set (course_ids render) - {c}"
    by blast
  then have ks: "\<forall>k \<in> set (map fst (progressData (handleDeleteCourse c render s))).
              k \<in> set (course_ids render) - {c}"
    using handleDeleteCourse_progressKeys [of c render s]
    by (auto simp: progressKeys_def)
  show ?thesis
    unfolding no_dangling_def ids using fs ks by blast
qed

lemma handleDeleteCourse_unreferenced:
  "unreferenced c (handleDeleteCourse c render s)"
  by (auto simp: unreferenced_def handleDeleteCourse_def course_ids_def obj_delete_def
      stripCourse_def Let_def)

lemma handleDeleteCourse_calls:
  "newCalls s (handleDeleteCourse c render s) =
     [Storage_deleteCourse c, Storage_deleteProgress c]"
  by (simp add: newCalls_def handleDeleteCourse_def Let_def)

lemma runDeletes_snoc:
  "runDeletes (evs @ [e]) s = step e (runDeletes evs s)"
  by (simp add: runDeletes_def)

lemma runDeletes_invariant:
  assumes "no_dangling s"
  shows "no_dangling (fst (runDeletes evs s)) \<and> no_dangling (snd (runDeletes evs s)) \<and>
         progressKeys (snd (runDeletes evs s)) \<subseteq> progressKeys (fst (runDeletes evs s))"
proof (induction evs rule: rev_induct)
  case Nil
  from assms show ?case by (simp add: runDeletes_def)
next
  case (snoc e evs)
  obtain render cur where p: "runDeletes evs s = (render, cur)"
    by (cases "runDeletes evs s")
  with snoc have inv: "no_dangling render" "no_dangling cur"
    "progressKeys cur \<subseteq> progressKeys render"
    by simp_all
  show ?case
  proof (cases e)
    case (Delete c)
    have "progressKeys (handleDeleteCourse c render cur) \<subseteq> progressKeys render"
      using inv(3) by (auto simp: handleDeleteCourse_progressKeys)
    with inv Delete p show ?thesis
      by (simp add: runDeletes_snoc handleDeleteCourse_no_dangling)
  next
    case Rerender
    with inv p show ?thesis
      by (simp add: runDeletes_snoc)
  qed
qed

text \<open>
  C1. Start from a state without dangling references and run any sequence of
  \<open>handleDeleteCourse\<close> calls, with or without a render of the provider between two
  calls. Then at every point of the sequence every course id in a folder's \<open>courseIds\<close>
  and every key of \<open>progressData\<close> is the id of a course in the course list; and right
  after a call \<open>handleDeleteCourse courseId\<close> no folder's \<open>courseIds\<close> holds \<open>courseId\<close>,
  \<open>progressData\<close> has no entry for it, and the course list has no course with that id.
\<close>

theorem delete_courses_leave_no_dangling_reference:
  assumes "no_dangling s"
  shows "no_dangling (snd (runDeletes evs s)) \<and>
         unreferenced c (snd (runDeletes (evs @ [Delete c]) s))"
proof -
  obtain render cur where p: "runDeletes evs s = (render, cur)"
    by (cases "runDeletes evs s")
  then have "unreferenced c (snd (runDeletes (evs @ [Delete c]) s))"
    by (simp add: runDeletes_snoc handleDeleteCourse_unreferenced)
  with runDeletes_invariant [OF assms, of evs] show ?thesis by simp
qed

text \<open>
  Two deletes from one render, then two deletes with a render in between. In the first
  run the second call computes the lists from the render's \<open>courses\<close> and \<open>folders\<close>, so
  the course \<open>c1\<close> is back in the course list and in folder \<open>fA\<close>; nothing dangles.
\<close>

theorem delete_courses_leave_no_dangling_reference_witness:
  "no_dangling example_state \<and>
   no_dangling (snd (runDeletes [Delete ''c1'', Delete ''c2''] example_state)) \<and>
   unreferenced ''c2'' (snd (runDeletes [Delete ''c1'', Delete ''c2''] example_state)) \<and>
   course_ids (snd (runDeletes [Delete ''c1'', Delete ''c2''] example_state)) = [''c1''] \<and>
   folders (snd (runDeletes [Delete ''c1'', Delete ''c2''] example_state)) =
     [\<lparr>folder_id = ''fA'', folder_name = ''A'', courseIds = [''c1'']\<rparr>,
      \<lparr>folder_id = ''fB'', folder_name = ''B'', courseIds = []\<rparr>] \<and>
   progressData (snd (runDeletes [Delete ''c1'', Delete ''c2''] example_state)) = [] \<and>
   course_ids (snd (runDeletes [Delete ''c1'', Rerender, Delete ''c2''] example_state)) = [] \<and>
   folders (snd (runDeletes [Delete ''c1'', Rerender, Delete ''c2''] example_state)) =
     [\<lparr>folder_id = ''fA'', folder_name = ''A'', courseIds = []\<rparr>,
      \<lparr>folder_id = ''fB'', folder_name = ''B'', courseIds = []\<rparr>]"
proof -
  have h: "no_dangling example_state"
    by (simp add: no_dangling_def example_state_def initialState_def course_ids_def
        example_course_def)
  note both = delete_courses_leave_no_dangling_reference [OF h, of "[Delete ''c1'']" "''c2''"]
    delete_courses_leave_no_dangling_reference [OF h, of "[Delete ''c1'', Delete ''c2'']" "''c2''"]
  have a: "no_dangling (snd (runDeletes [Delete ''c1'', Delete ''c2''] example_state))"
    using both by blast
  have b: "unreferenced ''c2'' (snd (runDeletes [Delete ''c1'', Delete ''c2''] example_state))"
    using both by simp
  have c: "course_ids (snd (runDeletes [Delete ''c1'', Delete ''c2''] example_state)) = [''c1'']"
    by (simp add: runDeletes_def handleDeleteCourse_def course_ids_def example_state_def
        initialState_def example_course_def Let_def)
  have d: "folders (snd (runDeletes [Delete ''c1'', Delete ''c2''] example_state)) =
     [\<lparr>folder_id = ''fA'', folder_name = ''A'', courseIds = [''c1'']\<rparr>,
      \<lparr>folder_id = ''fB'', folder_name = ''B'', courseIds = []\<rparr>]"
    by (simp add: runDeletes_def handleDeleteCourse_def stripCourse_def example_state_def
        initialState_def Let_def)
  have e: "progressData (snd (runDeletes [Delete ''c1'', Delete ''c2''] example_state)) = []"
    by (simp add: runDeletes_def handleDeleteCourse_def obj_delete_def example_state_def
        initialState_def Let_def)
  have f: "course_ids (snd (runDeletes [Delete ''c1'', Rerender, Delete ''c2''] example_state)) = []"
    by (simp add: runDeletes_def handleDeleteCourse_def course_ids_def example_state_def
        initialState_def example_course_def Let_def)
  have g: "folders (snd (runDeletes [Delete ''c1'', Rerender, Delete ''c2''] example_state)) =
     [\<lparr>folder_id = ''fA'', folder_name = ''A'', courseIds = []\<rparr>,
      \<lparr>folder_id = ''fB'', folder_name = ''B'', courseIds = []\<rparr>]"
    by (simp add: runDeletes_def handleDeleteCourse_def stripCourse_def example_state_def
        initialState_def Let_def)
  show ?thesis
    by (intro conjI h a b c d e f g)
qed

section \<open>A course is in at most one folder after a move\<close>

lemma findIndex_Some:
  "findIndex P xs = Some i \<Longrightarrow> i < length xs \<and> P (xs ! i)"
proof (induction xs arbitrary: i)
  case Nil
  then show ?case by simp
next
  case (Cons x xs)
  then show ?case
    by (cases i) (auto split: if_splits option.splits)
qed

lemma findIndex_None:
  "findIndex P xs = None \<longleftrightarrow> (\<forall>x \<in> set xs. \<not> P x)"
  by (induction xs) (auto split: option.splits)

lemma filter_update_at_most_one:
  assumes "\<forall>x \<in> set xs. \<not> P x"
  shows "length (filter P (xs[i := g])) \<le> 1"
  using assms
proof (induction xs arbitrary: i)
  case Nil
  then show ?case by simp
next
  case (Cons x xs)
  then have none: "filter P xs = []" by (simp add: filter_empty_conv)
  show ?case
  proof (cases i)
    case 0
    with none show ?thesis by simp
  next
    case (Suc j)
    with Cons show ?thesis by simp
  qed
qed

lemma stripCourse_none: "\<forall>f \<in> set (stripCourse c fs). c \<notin> set (courseIds f)"
  by (auto simp: stripCourse_def)

lemma move_folders:
  "folders (handleMoveCourseToFolder c target s) =
     (if truthy target
      then (case findIndex (\<lambda>f. Some (folder_id f) = target) (stripCourse c (folders s)) of
              None \<Rightarrow> stripCourse c (folders s)
            | Some i \<Rightarrow> (stripCourse c (folders s))
                [i := (stripCourse c (folders s) ! i)
                        \<lparr>courseIds := courseIds (stripCourse c (folders s) ! i) @ [c]\<rparr>])
      else stripCourse c (folders s))"
  by (simp add: handleMoveCourseToFolder_def Let_def split: option.splits)

lemma move_at_most_one:
  "length (holders c (handleMoveCourseToFolder c target s)) \<le> 1"
proof -
  have none: "filter (\<lambda>f. c \<in> set (courseIds f)) (stripCourse c (folders s)) = []"
    using stripCourse_none by (simp add: filter_empty_conv)
  show ?thesis
    unfolding holders_def move_folders
    using none filter_update_at_most_one [OF stripCourse_none [of c "folders s"]]
    by (simp split: option.splits)
qed

lemma move_only_target:
  assumes "f \<in> set (folders (handleMoveCourseToFolder c target s))"
    and "Some (folder_id f) \<noteq> target"
  shows "c \<notin> set (courseIds f)"
proof (cases "truthy target")
  case False
  with assms(1) stripCourse_none show ?thesis
    by (auto simp: move_folders)
next
  case True
  show ?thesis
  proof (cases "findIndex (\<lambda>f. Some (folder_id f) = target) (stripCourse c (folders s))")
    case None
    with True assms(1) stripCourse_none show ?thesis
      by (auto simp: move_folders)
  next
    case (Some i)
    let ?xs = "stripCourse c (folders s)"
    let ?g = "(?xs ! i)\<lparr>courseIds := courseIds (?xs ! i) @ [c]\<rparr>"
    from findIndex_Some [OF Some] have i: "Some (folder_id (?xs ! i)) = target" by simp
    from assms(1) True Some have "f \<in> set (?xs[i := ?g])"
      by (simp add: move_folders)
    then have "f = ?g \<or> f \<in> set ?xs"
      using set_update_subset_insert [of ?xs i ?g] by auto
    with assms(2) i stripCourse_none show ?thesis by auto
  qed
qed

lemma move_null_target:
  assumes "f \<in> set (folders (handleMoveCourseToFolder c None s))"
  shows "c \<notin> set (courseIds f)"
  using assms stripCourse_none by (auto simp: move_folders truthy_def)

lemma move_into_target:
  assumes "truthy target" and "g \<in> set (folders s)" and "Some (folder_id g) = target"
  shows "\<exists>f \<in> set (folders (handleMoveCourseToFolder c target s)).
           Some (folder_id f) = target \<and> c \<in> set (courseIds f)"
proof -
  let ?xs = "stripCourse c (folders s)"
  let ?P = "\<lambda>f. Some (folder_id f) = target"
  have "\<exists>x \<in> set ?xs. ?P x"
    using assms(2,3) by (force simp: stripCourse_def)
  then have "findIndex ?P ?xs \<noteq> None"
    by (simp add: findIndex_None)
  then obtain i where Some: "findIndex ?P ?xs = Some i"
    by blast
  let ?g = "(?xs ! i)\<lparr>courseIds := courseIds (?xs ! i) @ [c]\<rparr>"
  from findIndex_Some [OF Some]
  have i: "i < length ?xs" "Some (folder_id (?xs ! i)) = target" by simp_all
  have "?g \<in> set (?xs[i := ?g])"
    using i(1) by (simp add: set_update_memI)
  with assms(1) Some have "?g \<in> set (folders (handleMoveCourseToFolder c target s))"
    by (simp add: move_folders)
  moreover have "Some (folder_id ?g) = target \<and> c \<in> set (courseIds ?g)"
    using i(2) by simp
  ultimately show ?thesis by blast
qed

text \<open>
  C4. After \<open>handleMoveCourseToFolder courseId targetFolderId\<close>, for any folders and any
  course id: at most one folder's \<open>courseIds\<close> holds the course id; no folder other
  than the target holds it, so a folder that held it before has lost it; with a
  \<open>null\<close> target no folder holds it; and when the target is the id of an existing
  folder, a folder with that id holds it.
\<close>

theorem move_course_at_most_one_folder:
  "length (holders c (handleMoveCourseToFolder c target s)) \<le> 1 \<and>
   (\<forall>f \<in> set (folders (handleMoveCourseToFolder c target s)).
      Some (folder_id f) \<noteq> target \<longrightarrow> c \<notin> set (courseIds f)) \<and>
   (\<forall>f \<in> set (folders (handleMoveCourseToFolder c None s)). c \<notin> set (courseIds f)) \<and>
   (truthy target \<longrightarrow> (\<exists>g \<in> set (folders s). Some (folder_id g) = target) \<longrightarrow>
      (\<exists>f \<in> set (folders (handleMoveCourseToFolder c target s)).
         Some (folder_id f) = target \<and> c \<in> set (courseIds f)))"
  using move_at_most_one move_only_target move_null_target move_into_target
  by blast

theorem move_course_at_most_one_folder_witness:
  "holders ''c1'' example_state =
     [\<lparr>folder_id = ''fA'', folder_name = ''A'', courseIds = [''c1'', ''c2'']\<rparr>] \<and>
   folders (handleMoveCourseToFolder ''c1'' (Some ''fB'') example_state) =
     [\<lparr>folder_id = ''fA'', folder_name = ''A'', courseIds = [''c2'']\<rparr>,
      \<lparr>folder_id = ''fB'', folder_name = ''B'', courseIds = [''c1'']\<rparr>] \<and>
   length (holders ''c1'' (handleMoveCourseToFolder ''c1'' (Some ''fB'') example_state)) \<le> 1 \<and>
   holders ''c1'' (handleMoveCourseToFolder ''c1'' None example_state) = []"
proof -
  have "length (holders ''c1'' (handleMoveCourseToFolder ''c1'' (Some ''fB'') example_state)) \<le> 1"
    using move_course_at_most_one_folder [of "''c1''" "Some ''fB''" example_state] by blast
  moreover have "holders ''c1'' (handleMoveCourseToFolder ''c1'' None example_state) = []"
    using move_course_at_most_one_folder [of "''c1''" "Some ''fB''" example_state]
    by (simp add: holders_def filter_empty_conv)
  moreover have "holders ''c1'' example_state =
     [\<lparr>folder_id = ''fA'', folder_name = ''A'', courseIds = [''c1'', ''c2'']\<rparr>]"
    by (simp add: holders_def example_state_def initialState_def)
  moreover have "folders (handleMoveCourseToFolder ''c1'' (Some ''fB'') example_state) =
     [\<lparr>folder_id = ''fA'', folder_name = ''A'', courseIds = [''c2'']\<rparr>,
      \<lparr>folder_id = ''fB'', folder_name = ''B'', courseIds = [''c1'']\<rparr>]"
    by (simp add: move_folders truthy_def stripCourse_def example_state_def initialState_def)
  ultimately show ?thesis by simp
qed

section \<open>The last active course\<close>

lemma scanTimestamp_step:
  "scanTimestamp c (lt, lc) t = (if t > lt then (t, Some c) else (lt, lc))"
  by (simp add: scanTimestamp_def)

lemma scanTimestamps_result:
  "foldl (scanTimestamp c) (lt, lc) ts =
     (if \<exists>t \<in> set ts. t > lt then (Max (set ts), Some c) else (lt, lc))"
proof (induction ts arbitrary: lt lc)
  case Nil
  then show ?case by simp
next
  case (Cons t ts)
  show ?case
  proof (cases "t > lt")
    case newer: True
    show ?thesis
    proof (cases "\<exists>u \<in> set ts. u > t")
      case True
      then obtain u where u: "u \<in> set ts" "u > t" by blast
      then have "Max (set ts) \<ge> u" by simp
      with u have "t \<le> Max (set ts)" by linarith
      then have "max t (Max (set ts)) = Max (set ts)" by (rule max_absorb2)
      moreover have "set ts \<noteq> {}" using u by auto
      ultimately have "Max (set (t # ts)) = Max (set ts)" by simp
      with True newer show ?thesis
        by (simp add: Cons.IH scanTimestamp_step)
    next
      case False
      then have "\<forall>u \<in> set ts. u \<le> t" by auto
      then have "Max (set (t # ts)) = t"
        by (intro Max_eqI) auto
      with False newer show ?thesis
        by (simp add: Cons.IH scanTimestamp_step)
    qed
  next
    case older: False
    show ?thesis
    proof (cases "\<exists>u \<in> set ts. u > lt")
      case True
      then obtain u where u: "u \<in> set ts" "u > lt" by blast
      then have "Max (set ts) \<ge> u" by simp
      with u older have "t \<le> Max (set ts)" by linarith
      then have "max t (Max (set ts)) = Max (set ts)" by (rule max_absorb2)
      moreover have "set ts \<noteq> {}" using u by auto
      ultimately have "Max (set (t # ts)) = Max (set ts)" by simp
      with True older show ?thesis
        by (simp add: Cons.IH scanTimestamp_step)
    next
      case False
      with older show ?thesis
        by (simp add: Cons.IH scanTimestamp_step)
    qed
  qed
qed

lemma scanCourse_result:
  "scanCourse (lt, lc) e =
     (if \<exists>t \<in> set (map snd (snd e)). t > lt
      then (Max (set (map snd (snd e))), Some (fst e)) else (lt, lc))"
  by (simp add: scanCourse_def scanTimestamps_result)

lemma allTimestamps_Cons:
  "set (allTimestamps (e # pd)) = set (map snd (snd e)) \<union> set (allTimestamps pd)"
  by (simp add: allTimestamps_def)

lemma firstHolder_later:
  assumes below: "\<forall>u \<in> set (map snd (snd e)). u \<le> m"
    and t: "t \<in> set (allTimestamps pd)" "m < t"
  shows "Max (set (allTimestamps (e # pd))) = Max (set (allTimestamps pd))"
    and "firstHolder (e # pd) = firstHolder pd"
proof -
  let ?M = "Max (set (allTimestamps pd))"
  have ge: "t \<le> ?M" using t(1) by simp
  have mem: "?M \<in> set (allTimestamps pd)"
    using t(1) by (intro Max_in) auto
  show eq: "Max (set (allTimestamps (e # pd))) = ?M"
  proof (rule Max_eqI)
    show "finite (set (allTimestamps (e # pd)))" by simp
    show "?M \<in> set (allTimestamps (e # pd))"
      using mem by (simp add: allTimestamps_Cons)
    fix y assume "y \<in> set (allTimestamps (e # pd))"
    then consider "y \<in> set (map snd (snd e))" | "y \<in> set (allTimestamps pd)"
      by (auto simp: allTimestamps_Cons)
    then show "y \<le> ?M"
    proof cases
      case 1
      with below have "y \<le> m" by blast
      with t(2) ge show ?thesis by linarith
    next
      case 2
      then show ?thesis by simp
    qed
  qed
  have "\<not> holdsTimestamp ?M e"
  proof
    assume "holdsTimestamp ?M e"
    then have "?M \<in> set (map snd (snd e))" by (simp add: holdsTimestamp_def)
    with below have "?M \<le> m" by blast
    with t(2) ge show False by linarith
  qed
  then show "firstHolder (e # pd) = firstHolder pd"
    unfolding firstHolder_def eq by simp
qed

lemma firstHolder_here:
  assumes t: "t \<in> set (map snd (snd e))"
    and below: "\<forall>u \<in> set (allTimestamps pd). u \<le> Max (set (map snd (snd e)))"
  shows "Max (set (allTimestamps (e # pd))) = Max (set (map snd (snd e)))"
    and "firstHolder (e # pd) = Some (fst e)"
proof -
  let ?M = "Max (set (map snd (snd e)))"
  have mem: "?M \<in> set (map snd (snd e))"
    using t by (intro Max_in) auto
  show eq: "Max (set (allTimestamps (e # pd))) = ?M"
  proof (rule Max_eqI)
    show "finite (set (allTimestamps (e # pd)))" by simp
    show "?M \<in> set (allTimestamps (e # pd))"
      using mem by (simp add: allTimestamps_Cons)
    fix y assume "y \<in> set (allTimestamps (e # pd))"
    then consider "y \<in> set (map snd (snd e))" | "y \<in> set (allTimestamps pd)"
      by (auto simp: allTimestamps_Cons)
    then show "y \<le> ?M"
    proof cases
      case 1
      then show ?thesis by simp
    next
      case 2
      with below show ?thesis by blast
    qed
  qed
  have "holdsTimestamp ?M e"
    using mem by (simp add: holdsTimestamp_def)
  then show "firstHolder (e # pd) = Some (fst e)"
    unfolding firstHolder_def eq by simp
qed

lemma scanCourses_result:
  "foldl scanCourse (lt, lc) pd =
     (if \<exists>t \<in> set (allTimestamps pd). t > lt
      then (Max (set (allTimestamps pd)), firstHolder pd) else (lt, lc))"
proof (induction pd arbitrary: lt lc)
  case Nil
  then show ?case by (simp add: allTimestamps_def)
next
  case (Cons e pd)
  let ?Te = "set (map snd (snd e))"
  show ?case
  proof (cases "\<exists>t \<in> ?Te. t > lt")
    case here: True
    then obtain t where t: "t \<in> ?Te" "t > lt" by blast
    have step: "scanCourse (lt, lc) e = (Max ?Te, Some (fst e))"
      using here by (simp add: scanCourse_result)
    have ex: "\<exists>u \<in> set (allTimestamps (e # pd)). u > lt"
      using t by (auto simp: allTimestamps_Cons)
    show ?thesis
    proof (cases "\<exists>u \<in> set (allTimestamps pd). u > Max ?Te")
      case True
      then obtain u where u: "u \<in> set (allTimestamps pd)" "Max ?Te < u" by blast
      have "\<forall>v \<in> ?Te. v \<le> Max ?Te" by simp
      from firstHolder_later [OF this u] True step ex show ?thesis
        by (simp add: Cons.IH)
    next
      case False
      then have "\<forall>u \<in> set (allTimestamps pd). u \<le> Max ?Te" by auto
      from firstHolder_here [OF t(1) this] False step ex show ?thesis
        by (simp add: Cons.IH)
    qed
  next
    case nothere: False
    then have below: "\<forall>v \<in> ?Te. v \<le> lt" by auto
    have step: "scanCourse (lt, lc) e = (lt, lc)"
      using nothere by (simp add: scanCourse_result)
    show ?thesis
    proof (cases "\<exists>u \<in> set (allTimestamps pd). u > lt")
      case True
      then obtain u where u: "u \<in> set (allTimestamps pd)" "lt < u" by blast
      then have ex: "\<exists>u \<in> set (allTimestamps (e # pd)). u > lt"
        by (auto simp: allTimestamps_Cons)
      from firstHolder_later [OF below u] True step ex show ?thesis
        by (simp add: Cons.IH)
    next
      case False
      with nothere have "\<not> (\<exists>u \<in> set (allTimestamps (e # pd)). u > lt)"
        by (auto simp: allTimestamps_Cons)
      with False step show ?thesis
        by (simp add: Cons.IH)
    qed
  qed
qed

lemma lastActiveCourseId_is_latestCourse:
  "lastActiveCourseId pd = latestCourse pd"
proof (cases "pd = []")
  case True
  then show ?thesis
    by (simp add: lastActiveCourseId_def latestCourse_def allTimestamps_def)
next
  case False
  have "(\<forall>t \<in> set (allTimestamps pd). t \<le> 0) \<longleftrightarrow> \<not> (\<exists>t \<in> set (allTimestamps pd). t > 0)"
    by auto
  with False show ?thesis
    by (simp add: lastActiveCourseId_def latestCourse_def scanCourses_result)
qed

lemma latestCourse_positive:
  assumes "\<forall>t \<in> set (allTimestamps pd). 0 < t"
  shows "latestCourse pd = latestCourse_claimed pd"
proof (cases "allTimestamps pd = []")
  case True
  then show ?thesis
    by (simp add: latestCourse_def latestCourse_claimed_def)
next
  case False
  then obtain t where t: "t \<in> set (allTimestamps pd)"
    by (cases "allTimestamps pd") auto
  with assms have "0 < t" by blast
  with t have "(\<forall>u \<in> set (allTimestamps pd). u \<le> 0) = False" by force
  then have "latestCourse pd = firstHolder pd"
    unfolding latestCourse_def by (simp only: if_False)
  with False show ?thesis
    by (simp add: latestCourse_claimed_def)
qed

text \<open>
  C5. A completion timestamp is the time at which a lesson was completed, a positive
  number of milliseconds. For every progress data with such timestamps,
  \<open>lastActiveCourseId\<close> is \<open>null\<close> when all progress maps are empty, and otherwise the id
  of the course whose progress map holds the greatest timestamp of all courses, the
  first such course in iteration order when several hold it.
\<close>

theorem lastActiveCourseId_holds_latest_timestamp:
  assumes "\<forall>t \<in> set (allTimestamps pd). 0 < t"
  shows "lastActiveCourseId pd = latestCourse_claimed pd"
  using latestCourse_positive [OF assms]
  by (simp add: lastActiveCourseId_is_latestCourse)

theorem lastActiveCourseId_holds_latest_timestamp_witness:
  "allTimestamps example_progressData = [3, 9, 9, 4] \<and>
   Max (set (allTimestamps example_progressData)) = 9 \<and>
   lastActiveCourseId example_progressData = Some ''c1'' \<and>
   latestCourse_claimed example_progressData = Some ''c1'' \<and>
   lastActiveCourseId [(''c1'', []), (''c2'', [])] = None \<and>
   latestCourse_claimed [(''c1'', []), (''c2'', [])] = None"
proof -
  have ts: "allTimestamps example_progressData = [3, 9, 9, 4]"
    by (simp add: allTimestamps_def example_progressData_def)
  have h: "\<forall>t \<in> set (allTimestamps example_progressData). 0 < t"
    by (simp add: ts)
  have e: "\<forall>t \<in> set (allTimestamps [(''c1'', []), (''c2'', [])]). 0 < t"
    by (simp add: allTimestamps_def)
  have a: "lastActiveCourseId example_progressData = Some ''c1''"
    by (simp add: lastActiveCourseId_def example_progressData_def scanCourse_def
        scanTimestamp_def)
  have b: "lastActiveCourseId [(''c1'', []), (''c2'', [])] = None"
    by (simp add: lastActiveCourseId_def scanCourse_def)
  have m: "Max (set (allTimestamps example_progressData)) = 9"
    by (simp add: ts)
  from lastActiveCourseId_holds_latest_timestamp [OF h] a
  have c: "latestCourse_claimed example_progressData = Some ''c1''" by simp
  from lastActiveCourseId_holds_latest_timestamp [OF e] b
  have d: "latestCourse_claimed [(''c1'', []), (''c2'', [])] = None" by simp
  show ?thesis
    by (intro conjI ts m a c b d)
qed

section \<open>Toggling a lesson twice\<close>

lemma map_of_obj_assign: "map_of (obj_assign k v ps) k = Some v"
  by (induction ps) auto

lemma progressOf_obj_assign: "progressOf (obj_assign k v ps) k = v"
  by (simp add: progressOf_def map_of_obj_assign)

lemma toggle_progress:
  "progressOf (progressData (handleToggleLessonComplete now c l s)) c =
     (if l \<in> lessonIds (progressOf (storedProgress s) c)
      then obj_delete l (progressOf (storedProgress s) c)
      else progressOf (storedProgress s) c @ [(l, now)])"
  by (simp add: handleToggleLessonComplete_def storage_toggleLessonProgress_def Let_def
      progressOf_obj_assign lessonIds_def)

lemma toggle_stored:
  "progressOf (storedProgress (handleToggleLessonComplete now c l s)) c =
     progressOf (progressData (handleToggleLessonComplete now c l s)) c"
  by (simp add: handleToggleLessonComplete_def storage_toggleLessonProgress_def Let_def
      progressOf_obj_assign)

lemma obj_delete_absent: "l \<notin> lessonIds p \<Longrightarrow> obj_delete l (p @ [(l, t)]) = p"
  by (auto simp: obj_delete_def lessonIds_def filter_id_conv)

lemma lessonIds_obj_delete: "lessonIds (obj_delete l p) = lessonIds p - {l}"
  by (auto simp: obj_delete_def lessonIds_def)

lemma lessonIds_append: "lessonIds (p @ [(l, t)]) = insert l (lessonIds p)"
  by (simp add: lessonIds_def)

lemma double_toggle_progress:
  assumes "progressOf (progressData s) c = progressOf (storedProgress s) c"
  shows "progressOf (progressData
           (handleToggleLessonComplete t2 c l (handleToggleLessonComplete t1 c l s))) c =
     (if l \<in> lessonIds (progressOf (progressData s) c)
      then obj_delete l (progressOf (progressData s) c) @ [(l, t2)]
      else progressOf (progressData s) c)"
  by (simp add: toggle_progress [of t2] toggle_stored toggle_progress [of t1] assms
      lessonIds_obj_delete lessonIds_append obj_delete_absent)

text \<open>
  C6, amended. Let the in-memory progress map of a course agree with the stored one.
  A single \<open>handleToggleLessonComplete\<close> inserts the lesson's entry, with the time of
  the toggle, when the lesson is absent and removes it when present. Two toggles in
  succession for the same (course id, lesson id) pair restore the set of completed
  lessons of that course; they restore the progress map itself when the lesson was
  absent at first; when it was present, its entry comes back last in the map and with
  the time of the second toggle.
\<close>

theorem double_toggle_restores_completed_lessons:
  assumes "progressOf (progressData s) c = progressOf (storedProgress s) c"
  shows "progressOf (progressData (handleToggleLessonComplete t1 c l s)) c =
           (if l \<in> lessonIds (progressOf (progressData s) c)
            then obj_delete l (progressOf (progressData s) c)
            else progressOf (progressData s) c @ [(l, t1)]) \<and>
         lessonIds (progressOf (progressData
           (handleToggleLessonComplete t2 c l (handleToggleLessonComplete t1 c l s))) c) =
           lessonIds (progressOf (progressData s) c) \<and>
         progressOf (progressData
           (handleToggleLessonComplete t2 c l (handleToggleLessonComplete t1 c l s))) c =
           (if l \<in> lessonIds (progressOf (progressData s) c)
            then obj_delete l (progressOf (progressData s) c) @ [(l, t2)]
            else progressOf (progressData s) c)"
proof (intro conjI)
  show "progressOf (progressData (handleToggleLessonComplete t1 c l s)) c =
           (if l \<in> lessonIds (progressOf (progressData s) c)
            then obj_delete l (progressOf (progressData s) c)
            else progressOf (progressData s) c @ [(l, t1)])"
    by (simp add: toggle_progress assms)
  show "lessonIds (progressOf (progressData
           (handleToggleLessonComplete t2 c l (handleToggleLessonComplete t1 c l s))) c) =
        lessonIds (progressOf (progressData s) c)"
    by (auto simp: double_toggle_progress [OF assms] lessonIds_obj_delete lessonIds_append)
  show "progressOf (progressData
           (handleToggleLessonComplete t2 c l (handleToggleLessonComplete t1 c l s))) c =
           (if l \<in> lessonIds (progressOf (progressData s) c)
            then obj_delete l (progressOf (progressData s) c) @ [(l, t2)]
            else progressOf (progressData s) c)"
    by (rule double_toggle_progress [OF assms])
qed

theorem double_toggle_restores_completed_lessons_witness:
  "progressOf (progressData example_state) ''c1'' = progressOf (storedProgress example_state) ''c1'' \<and>
   progressOf (progressData example_state) ''c1'' = [(''l1'', 5)] \<and>
   progressOf (progressData (handleToggleLessonComplete 7 ''c1'' ''l2'' example_state)) ''c1'' =
     [(''l1'', 5), (''l2'', 7)] \<and>
   progressOf (progressData (handleToggleLessonComplete 9 ''c1'' ''l2''
     (handleToggleLessonComplete 7 ''c1'' ''l2'' example_state))) ''c1'' = [(''l1'', 5)]"
proof -
  have h: "progressOf (progressData example_state) ''c1'' =
           progressOf (storedProgress example_state) ''c1''"
    by (simp add: example_state_def initialState_def)
  have p: "progressOf (progressData example_state) ''c1'' = [(''l1'', 5)]"
    by (simp add: example_state_def initialState_def progressOf_def)
  note toggled = double_toggle_restores_completed_lessons [OF h, of 7 "''l2''" 9, unfolded p]
  from toggled
  have a: "progressOf (progressData (handleToggleLessonComplete 7 ''c1'' ''l2'' example_state)) ''c1'' =
     [(''l1'', 5), (''l2'', 7)]"
    by (simp add: lessonIds_def)
  from toggled
  have b: "progressOf (progressData (handleToggleLessonComplete 9 ''c1'' ''l2''
     (handleToggleLessonComplete 7 ''c1'' ''l2'' example_state))) ''c1'' = [(''l1'', 5)]"
    by (simp add: lessonIds_def)
  show ?thesis
    by (intro conjI h p a b)
qed

text \<open>
  The claim as worded fails for a lesson that was complete: the second toggle inserts
  a new entry, whose timestamp is the time of that toggle.
\<close>

theorem double_toggle_counterexample:
  "progressOf (progressData example_state) ''c1'' = [(''l1'', 5)] \<and>
   progressOf (progressData (handleToggleLessonComplete 9 ''c1'' ''l1''
     (handleToggleLessonComplete 7 ''c1'' ''l1'' example_state))) ''c1'' = [(''l1'', 9)]"
  by (simp add: example_state_def initialState_def progressOf_def handleToggleLessonComplete_def
      storage_toggleLessonProgress_def obj_delete_def Let_def)

section \<open>Generating a course\<close>

lemma begin_calls:
  "calls (funFacts_settled facts (handleGenerateCourse_begin tp level s)) =
     calls s @ [SetViewGenerating, Gemini_generateFunFacts tp, Gemini_generateCourse tp level] @
       (case facts of Inl e \<Rightarrow> [Console_error] | Inr fs \<Rightarrow> [])"
  by (cases facts) (simp_all add: funFacts_settled_def handleGenerateCourse_begin_def logCalls_def)

lemma begin_frame:
  "courses (funFacts_settled facts (handleGenerateCourse_begin tp level s)) = courses s"
  "activeCourse (funFacts_settled facts (handleGenerateCourse_begin tp level s)) = activeCourse s"
  "folders (funFacts_settled facts (handleGenerateCourse_begin tp level s)) = folders s"
  "error (funFacts_settled facts (handleGenerateCourse_begin tp level s)) = None"
  by (cases facts; simp add: funFacts_settled_def handleGenerateCourse_begin_def logCalls_def)+

lemma generate_success_calls:
  "newCalls s (handleGenerateCourse tp level None facts (Inr generatedCourse) s) =
     [SetViewGenerating, Gemini_generateFunFacts tp, Gemini_generateCourse tp level] @
     (case facts of Inl e \<Rightarrow> [Console_error] | Inr fs \<Rightarrow> []) @
     [Storage_saveCourse generatedCourse, SetViewCourse]"
  by (simp add: newCalls_def handleGenerateCourse_def handleGenerateCourse_resume_def
      truthy_def logCalls_def Let_def begin_calls)

lemma generate_failure_calls:
  "newCalls s (handleGenerateCourse tp level folderId facts (Inl e) s) =
     [SetViewGenerating, Gemini_generateFunFacts tp, Gemini_generateCourse tp level] @
     (case facts of Inl e \<Rightarrow> [Console_error] | Inr fs \<Rightarrow> []) @
     [Console_error, SetViewCanvas]"
  by (simp add: newCalls_def handleGenerateCourse_def handleGenerateCourse_resume_def
      logCalls_def Let_def begin_calls)

text \<open>
  C2. For every topic and knowledge level, one run of \<open>handleGenerateCourse\<close> with a
  \<open>null\<close> folder id in which the generation client resolves with a course: the course
  is at the head of the course list, in front of the courses that were there;
  \<open>storageService.saveCourse\<close> was called with it; it is the active course; the error
  is \<open>null\<close>; and the show-course callback was called exactly once.
\<close>

theorem generate_course_success:
  "courses (handleGenerateCourse tp level None facts (Inr generatedCourse) s) =
     generatedCourse # courses s \<and>
   Storage_saveCourse generatedCourse \<in>
     set (newCalls s (handleGenerateCourse tp level None facts (Inr generatedCourse) s)) \<and>
   activeCourse (handleGenerateCourse tp level None facts (Inr generatedCourse) s) =
     Some generatedCourse \<and>
   error (handleGenerateCourse tp level None facts (Inr generatedCourse) s) = None \<and>
   count_list (newCalls s (handleGenerateCourse tp level None facts (Inr generatedCourse) s))
     SetViewCourse = 1"
proof (intro conjI)
  show "courses (handleGenerateCourse tp level None facts (Inr generatedCourse) s) =
     generatedCourse # courses s"
    by (simp add: handleGenerateCourse_def handleGenerateCourse_resume_def truthy_def
        logCalls_def Let_def begin_frame)
  show "Storage_saveCourse generatedCourse \<in>
     set (newCalls s (handleGenerateCourse tp level None facts (Inr generatedCourse) s))"
    by (simp add: generate_success_calls)
  show "activeCourse (handleGenerateCourse tp level None facts (Inr generatedCourse) s) =
     Some generatedCourse"
    by (simp add: handleGenerateCourse_def handleGenerateCourse_resume_def truthy_def
        logCalls_def Let_def)
  show "error (handleGenerateCourse tp level None facts (Inr generatedCourse) s) = None"
    by (simp add: handleGenerateCourse_def handleGenerateCourse_resume_def truthy_def
        logCalls_def Let_def begin_frame)
  show "count_list (newCalls s (handleGenerateCourse tp level None facts (Inr generatedCourse) s))
     SetViewCourse = 1"
    by (cases facts) (simp_all add: generate_success_calls)
qed

text \<open>
  C3. For every topic and knowledge level, one run of \<open>handleGenerateCourse\<close> in which
  the generation client rejects with the value \<open>e\<close>: the error is the non-empty string
  \<open>Failed to generate the course. \<close> followed by the message, followed by
  \<open>. Please try again.\<close>, where the message is that of \<open>e\<close> when \<open>e\<close> is an \<open>Error\<close>
  (and a fixed text otherwise); the active course and the course list are unchanged;
  and the show-canvas callback was called exactly once.
\<close>

theorem generate_course_failure:
  "error (handleGenerateCourse tp level folderId facts (Inl e) s) =
     Some (''Failed to generate the course. '' @ messageOr ''An unknown error occurred.'' e @
           ''. Please try again.'') \<and>
   messageOr ''An unknown error occurred.'' (ErrorInstance msg) = msg \<and>
   error (handleGenerateCourse tp level folderId facts (Inl e) s) \<noteq> Some [] \<and>
   activeCourse (handleGenerateCourse tp level folderId facts (Inl e) s) = activeCourse s \<and>
   courses (handleGenerateCourse tp level folderId facts (Inl e) s) = courses s \<and>
   count_list (newCalls s (handleGenerateCourse tp level folderId facts (Inl e) s))
     SetViewCanvas = 1"
proof (intro conjI)
  show err: "error (handleGenerateCourse tp level folderId facts (Inl e) s) =
     Some (''Failed to generate the course. '' @ messageOr ''An unknown error occurred.'' e @
           ''. Please try again.'')"
    by (simp add: handleGenerateCourse_def handleGenerateCourse_resume_def logCalls_def Let_def)
  show "messageOr ''An unknown error occurred.'' (ErrorInstance msg) = msg"
    by (simp add: messageOr_def)
  show "error (handleGenerateCourse tp level folderId facts (Inl e) s) \<noteq> Some []"
    unfolding err by simp
  show "activeCourse (handleGenerateCourse tp level folderId facts (Inl e) s) = activeCourse s"
    by (simp add: handleGenerateCourse_def handleGenerateCourse_resume_def logCalls_def Let_def
        begin_frame)
  show "courses (handleGenerateCourse tp level folderId facts (Inl e) s) = courses s"
    by (simp add: handleGenerateCourse_def handleGenerateCourse_resume_def logCalls_def Let_def
        begin_frame)
  show "count_list (newCalls s (handleGenerateCourse tp level folderId facts (Inl e) s))
     SetViewCanvas = 1"
    by (cases facts) (simp_all add: generate_failure_calls)
qed

section \<open>Socratic dialogue\<close>

lemma handleSendSocraticMessage_begin_writes:
  "handleSendSocraticMessage_begin message socraticState cur =
     (cur\<lparr>history := history socraticState @ [\<lparr>role = User, message_content = message\<rparr>],
          isLoading := True\<rparr>,
      history socraticState @ [\<lparr>role = User, message_content = message\<rparr>])"
  by (simp add: handleSendSocraticMessage_begin_def Let_def)

lemma handleSendSocraticMessage_resume_writes:
  "handleSendSocraticMessage_resume newHistory (Inr aiResponse) cur =
     cur\<lparr>history := newHistory @ [\<lparr>role = Model, message_content = aiResponse\<rparr>],
         isLoading := False\<rparr>"
  "handleSendSocraticMessage_resume newHistory (Inl e) cur =
     cur\<lparr>history := newHistory @
           [\<lparr>role = Model,
             message_content = ''I'' @ [CHR 0x27] @ ''m having trouble thinking. Please try again.''\<rparr>],
         isLoading := False\<rparr>"
  by (simp_all add: handleSendSocraticMessage_resume_def fallbackTurn_def)

text \<open>
  C7, amended. Let \<open>handleSendSocraticMessage\<close> be called with a session whose history is
  the current history, and let nothing else write the session before the generation
  client settles. At the \<open>await\<close> the session is the current one with exactly one user
  turn carrying the message appended to its history and loading true. When the client
  responds, the session is the current one with that user turn and exactly one model
  turn carrying the response appended, and loading false. When the client fails, the
  model turn appended is instead the fixed one, of role model and with the text
  \<open>I'm having trouble thinking. Please try again.\<close>, and loading is false as well. The
  prior history is a prefix of the history in each case.
\<close>

theorem send_socratic_message_appends:
  assumes "history socraticState = history cur"
  shows "handleSendSocraticMessage_begin message socraticState cur =
           (cur\<lparr>history := history cur @ [\<lparr>role = User, message_content = message\<rparr>],
                isLoading := True\<rparr>,
            history cur @ [\<lparr>role = User, message_content = message\<rparr>]) \<and>
         handleSendSocraticMessage_resume
           (snd (handleSendSocraticMessage_begin message socraticState cur)) (Inr aiResponse)
           (fst (handleSendSocraticMessage_begin message socraticState cur)) =
           cur\<lparr>history := history cur @
                  [\<lparr>role = User, message_content = message\<rparr>,
                   \<lparr>role = Model, message_content = aiResponse\<rparr>],
               isLoading := False\<rparr> \<and>
         handleSendSocraticMessage_resume
           (snd (handleSendSocraticMessage_begin message socraticState cur)) (Inl e)
           (fst (handleSendSocraticMessage_begin message socraticState cur)) =
           cur\<lparr>history := history cur @
                  [\<lparr>role = User, message_content = message\<rparr>,
                   \<lparr>role = Model,
                    message_content =
                      ''I'' @ [CHR 0x27] @ ''m having trouble thinking. Please try again.''\<rparr>],
               isLoading := False\<rparr> \<and>
         take (length (history cur))
           (history (fst (handleSendSocraticMessage_begin message socraticState cur))) =
           history cur \<and>
         take (length (history cur))
           (history (handleSendSocraticMessage_resume
              (snd (handleSendSocraticMessage_begin message socraticState cur)) r
              (fst (handleSendSocraticMessage_begin message socraticState cur)))) =
           history cur"
proof (intro conjI)
  show "take (length (history cur))
           (history (handleSendSocraticMessage_resume
              (snd (handleSendSocraticMessage_begin message socraticState cur)) r
              (fst (handleSendSocraticMessage_begin message socraticState cur)))) =
           history cur"
    by (cases r)
       (simp_all add: handleSendSocraticMessage_begin_writes
          handleSendSocraticMessage_resume_writes assms)
qed (simp_all add: handleSendSocraticMessage_begin_writes
       handleSendSocraticMessage_resume_writes assms)

theorem send_socratic_message_appends_witness:
  "history example_session = history example_session \<and>
   history (fst (handleSendSocraticMessage_begin ''Why?'' example_session example_session)) =
     [\<lparr>role = User, message_content = ''What is light for?''\<rparr>,
      \<lparr>role = Model, message_content = ''What do you think?''\<rparr>,
      \<lparr>role = User, message_content = ''Why?''\<rparr>] \<and>
   isLoading (fst (handleSendSocraticMessage_begin ''Why?'' example_session example_session)) =
     True \<and>
   history (handleSendSocraticMessage_resume
     (snd (handleSendSocraticMessage_begin ''Why?'' example_session example_session))
     (Inr ''Consider the leaf.'')
     (fst (handleSendSocraticMessage_begin ''Why?'' example_session example_session))) =
     [\<lparr>role = User, message_content = ''What is light for?''\<rparr>,
      \<lparr>role = Model, message_content = ''What do you think?''\<rparr>,
      \<lparr>role = User, message_content = ''Why?''\<rparr>,
      \<lparr>role = Model, message_content = ''Consider the leaf.''\<rparr>] \<and>
   history (handleSendSocraticMessage_resume
     (snd (handleSendSocraticMessage_begin ''Why?'' example_session example_session))
     (Inl NonError)
     (fst (handleSendSocraticMessage_begin ''Why?'' example_session example_session))) =
     [\<lparr>role = User, message_content = ''What is light for?''\<rparr>,
      \<lparr>role = Model, message_content = ''What do you think?''\<rparr>,
      \<lparr>role = User, message_content = ''Why?''\<rparr>,
      \<lparr>role = Model,
       message_content = ''I'' @ [CHR 0x27] @ ''m having trouble thinking. Please try again.''\<rparr>]"
proof -
  have h: "history example_session = history example_session" by simp
  have hist: "history example_session =
     [\<lparr>role = User, message_content = ''What is light for?''\<rparr>,
      \<lparr>role = Model, message_content = ''What do you think?''\<rparr>]"
    by (simp add: example_session_def)
  note run = send_socratic_message_appends
    [OF h, of "''Why?''" "''Consider the leaf.''" NonError "Inl NonError"]
  note r1 = run [THEN conjunct1]
  note r2 = run [THEN conjunct2, THEN conjunct1]
  note r3 = run [THEN conjunct2, THEN conjunct2, THEN conjunct1]
  have a: "history (fst (handleSendSocraticMessage_begin ''Why?'' example_session
      example_session)) =
     [\<lparr>role = User, message_content = ''What is light for?''\<rparr>,
      \<lparr>role = Model, message_content = ''What do you think?''\<rparr>,
      \<lparr>role = User, message_content = ''Why?''\<rparr>]"
    unfolding r1 by (simp add: hist)
  have b: "isLoading (fst (handleSendSocraticMessage_begin ''Why?'' example_session
      example_session)) = True"
    unfolding r1 by simp
  have c: "history (handleSendSocraticMessage_resume
     (snd (handleSendSocraticMessage_begin ''Why?'' example_session example_session))
     (Inr ''Consider the leaf.'')
     (fst (handleSendSocraticMessage_begin ''Why?'' example_session example_session))) =
     [\<lparr>role = User, message_content = ''What is light for?''\<rparr>,
      \<lparr>role = Model, message_content = ''What do you think?''\<rparr>,
      \<lparr>role = User, message_content = ''Why?''\<rparr>,
      \<lparr>role = Model, message_content = ''Consider the leaf.''\<rparr>]"
    unfolding r2 by (simp add: hist)
  have d: "history (handleSendSocraticMessage_resume
     (snd (handleSendSocraticMessage_begin ''Why?'' example_session example_session))
     (Inl NonError)
     (fst (handleSendSocraticMessage_begin ''Why?'' example_session example_session))) =
     [\<lparr>role = User, message_content = ''What is light for?''\<rparr>,
      \<lparr>role = Model, message_content = ''What do you think?''\<rparr>,
      \<lparr>role = User, message_content = ''Why?''\<rparr>,
      \<lparr>role = Model,
       message_content = ''I'' @ [CHR 0x27] @ ''m having trouble thinking. Please try again.''\<rparr>]"
    unfolding r3 by (simp add: hist)
  show ?thesis
    by (intro conjI h a b c d)
qed

text \<open>
  The claim as worded fails when the session has moved on from the one the handler
  was called with. A second message sent while the first awaits its answer is written
  with the history of the render that sent it; when the first answer arrives, the
  handler writes the history it computed at its own call, and the second user turn is
  gone. Likewise a call with a session older than the current one drops the turns
  added since.
\<close>

theorem send_socratic_message_counterexample:
  "history (fst (handleSendSocraticMessage_begin ''How?''
      (fst (handleSendSocraticMessage_begin ''Why?'' example_session example_session))
      (fst (handleSendSocraticMessage_begin ''Why?'' example_session example_session)))) =
     [\<lparr>role = User, message_content = ''What is light for?''\<rparr>,
      \<lparr>role = Model, message_content = ''What do you think?''\<rparr>,
      \<lparr>role = User, message_content = ''Why?''\<rparr>,
      \<lparr>role = User, message_content = ''How?''\<rparr>] \<and>
   history (handleSendSocraticMessage_resume
      (snd (handleSendSocraticMessage_begin ''Why?'' example_session example_session))
      (Inr ''Consider the leaf.'')
      (fst (handleSendSocraticMessage_begin ''How?''
        (fst (handleSendSocraticMessage_begin ''Why?'' example_session example_session))
        (fst (handleSendSocraticMessage_begin ''Why?'' example_session example_session))))) =
     [\<lparr>role = User, message_content = ''What is light for?''\<rparr>,
      \<lparr>role = Model, message_content = ''What do you think?''\<rparr>,
      \<lparr>role = User, message_content = ''Why?''\<rparr>,
      \<lparr>role = Model, message_content = ''Consider the leaf.''\<rparr>] \<and>
   history (fst (handleSendSocraticMessage_begin ''Why?''
      (example_session\<lparr>history := []\<rparr>) example_session)) =
     [\<lparr>role = User, message_content = ''Why?''\<rparr>]"
  by (simp add: handleSendSocraticMessage_begin_writes handleSendSocraticMessage_resume_writes
      example_session_def)

section \<open>Clearing the error\<close>

lemma handleGenerateCourse_begin_clears_error:
  "error (handleGenerateCourse_begin tp level s) = None"
  by (simp add: handleGenerateCourse_begin_def)

lemma handleCreateProject_begin_clears_error:
  "error (handleCreateProject_begin projectTopic s) = None"
  by (simp add: handleCreateProject_begin_def)

lemma handleCreateProject_resume_error:
  "error (handleCreateProject_resume r s) =
     (case r of Inr p \<Rightarrow> error s
      | Inl e \<Rightarrow> Some (''Failed to generate the project. '' @
                        messageOr ''An unknown error occurred.'' e @ ''. Please try again.''))"
  by (cases r) (simp_all add: handleCreateProject_resume_def logCalls_def Let_def)

lemma handleTestCourseConcepts_keeps_error:
  "error (handleTestCourseConcepts_begin c s) = error s"
  "error (handleTestCourseConcepts_resume c (Inr qs) s) = error s"
  by (simp_all add: handleTestCourseConcepts_begin_def handleTestCourseConcepts_resume_def
      logCalls_def)

text \<open>
  C8. Course generation and project generation set the error to \<open>null\<close> in their first
  part (the two lemmas above). \<open>handleTestCourseConcepts\<close> does not: with the error of
  an earlier failed attempt in the state, the error is still there when the test
  request has been sent, and still there after the request succeeded.
\<close>

theorem test_course_concepts_keeps_stale_error:
  "error (handleTestCourseConcepts_begin (example_course ''c1'')
            (example_state\<lparr>error := Some ''Could not generate the test for this course.''\<rparr>)) =
     Some ''Could not generate the test for this course.'' \<and>
   error (handleTestCourseConcepts_resume (example_course ''c1'') (Inr [''Q1''])
            (handleTestCourseConcepts_begin (example_course ''c1'')
               (example_state\<lparr>error := Some ''Could not generate the test for this course.''\<rparr>))) =
     Some ''Could not generate the test for this course.''"
  by (simp add: handleTestCourseConcepts_begin_def handleTestCourseConcepts_resume_def
      logCalls_def)

section \<open>Looking up an id that is not there\<close>

lemma findIndex_stripCourse:
  "findIndex (\<lambda>f. Some (folder_id f) = target) (stripCourse c fs) =
   findIndex (\<lambda>f. Some (folder_id f) = target) fs"
  by (induction fs) (simp_all add: stripCourse_def)

lemma move_unknown_folder:
  assumes "findIndex (\<lambda>f. Some (folder_id f) = target) (folders s) = None"
  shows "handleMoveCourseToFolder c target s =
           s\<lparr>folders := stripCourse c (folders s),
              calls := calls s @ [Storage_saveFolders (stripCourse c (folders s))]\<rparr>"
  using assms
  by (simp add: handleMoveCourseToFolder_def Let_def findIndex_stripCourse)

text \<open>
  C9, amended. When no course has the given id, \<open>handleSelectCourse\<close> and
  \<open>handleSaveNote\<close> return the state as it was, and so does \<open>handleSelectProject\<close> when no
  project has the given id: nothing is written, nothing is called, no error is set.
  \<open>handleMoveCourseToFolder\<close> with a target id that no folder has sets no error either,
  but it is not a no-op: it still removes the course id from every folder's list and
  saves the folders, as it does for a \<open>null\<close> target.
\<close>

theorem lookup_failure_behaviour:
  "(find (\<lambda>c. course_id c = i) (courses s) = None \<longrightarrow>
      handleSelectCourse i s = s \<and> handleSaveNote i lessonId note s = s) \<and>
   (find (\<lambda>p. project_id p = i) (projects s) = None \<longrightarrow> handleSelectProject i s = s) \<and>
   (findIndex (\<lambda>f. Some (folder_id f) = target) (folders s) = None \<longrightarrow>
      handleMoveCourseToFolder c target s =
        s\<lparr>folders := stripCourse c (folders s),
           calls := calls s @ [Storage_saveFolders (stripCourse c (folders s))]\<rparr> \<and>
      handleMoveCourseToFolder c target s = handleMoveCourseToFolder c None s \<and>
      error (handleMoveCourseToFolder c target s) = error s)"
proof (intro conjI impI)
  assume "find (\<lambda>c. course_id c = i) (courses s) = None"
  then show "handleSelectCourse i s = s" and "handleSaveNote i lessonId note s = s"
    by (simp_all add: handleSelectCourse_def handleSaveNote_def)
next
  assume "find (\<lambda>p. project_id p = i) (projects s) = None"
  then show "handleSelectProject i s = s"
    by (simp add: handleSelectProject_def)
next
  assume none: "findIndex (\<lambda>f. Some (folder_id f) = target) (folders s) = None"
  show "handleMoveCourseToFolder c target s =
        s\<lparr>folders := stripCourse c (folders s),
           calls := calls s @ [Storage_saveFolders (stripCourse c (folders s))]\<rparr>"
    by (rule move_unknown_folder [OF none])
  show "handleMoveCourseToFolder c target s = handleMoveCourseToFolder c None s"
    by (simp add: move_unknown_folder [OF none])
       (simp add: handleMoveCourseToFolder_def truthy_def Let_def)
  show "error (handleMoveCourseToFolder c target s) = error s"
    by (simp add: move_unknown_folder [OF none])
qed

theorem lookup_failure_behaviour_witness:
  "find (\<lambda>c. course_id c = ''c9'') (courses example_state) = None \<and>
   find (\<lambda>p. project_id p = ''c9'') (projects example_state) = None \<and>
   findIndex (\<lambda>f. Some (folder_id f) = Some ''fZ'') (folders example_state) = None \<and>
   handleSelectCourse ''c9'' example_state = example_state \<and>
   handleSaveNote ''c9'' ''l1'' ''remember'' example_state = example_state \<and>
   handleSelectProject ''c9'' example_state = example_state \<and>
   handleMoveCourseToFolder ''c1'' (Some ''fZ'') example_state =
     handleMoveCourseToFolder ''c1'' None example_state"
proof -
  have a: "find (\<lambda>c. course_id c = ''c9'') (courses example_state) = None"
    by (simp add: example_state_def initialState_def example_course_def)
  have b: "find (\<lambda>p. project_id p = ''c9'') (projects example_state) = None"
    by (simp add: example_state_def initialState_def)
  have c: "findIndex (\<lambda>f. Some (folder_id f) = Some ''fZ'') (folders example_state) = None"
    by (simp add: example_state_def initialState_def)
  from a b c
    lookup_failure_behaviour [of "''c9''" example_state "''l1''" "''remember''" "Some ''fZ''" "''c1''"]
  show ?thesis by blast
qed

text \<open>
  The claim as worded fails for \<open>handleMoveCourseToFolder\<close>: no folder has the id
  \<open>fZ\<close>, and the move takes the course \<open>c1\<close> out of folder \<open>fA\<close> and calls
  \<open>storageService.saveFolders\<close>.
\<close>

theorem move_to_unknown_folder_counterexample:
  "findIndex (\<lambda>f. Some (folder_id f) = Some ''fZ'') (folders example_state) = None \<and>
   folders example_state =
     [\<lparr>folder_id = ''fA'', folder_name = ''A'', courseIds = [''c1'', ''c2'']\<rparr>,
      \<lparr>folder_id = ''fB'', folder_name = ''B'', courseIds = []\<rparr>] \<and>
   folders (handleMoveCourseToFolder ''c1'' (Some ''fZ'') example_state) =
     [\<lparr>folder_id = ''fA'', folder_name = ''A'', courseIds = [''c2'']\<rparr>,
      \<lparr>folder_id = ''fB'', folder_name = ''B'', courseIds = []\<rparr>] \<and>
   newCalls example_state (handleMoveCourseToFolder ''c1'' (Some ''fZ'') example_state) =
     [Storage_saveFolders
       [\<lparr>folder_id = ''fA'', folder_name = ''A'', courseIds = [''c2'']\<rparr>,
        \<lparr>folder_id = ''fB'', folder_name = ''B'', courseIds = []\<rparr>]] \<and>
   handleMoveCourseToFolder ''c1'' (Some ''fZ'') example_state \<noteq> example_state"
proof -
  have f: "folders (handleMoveCourseToFolder ''c1'' (Some ''fZ'') example_state) =
     [\<lparr>folder_id = ''fA'', folder_name = ''A'', courseIds = [''c2'']\<rparr>,
      \<lparr>folder_id = ''fB'', folder_name = ''B'', courseIds = []\<rparr>]"
    by (simp add: handleMoveCourseToFolder_def truthy_def stripCourse_def Let_def
        example_state_def initialState_def)
  have g: "folders example_state =
     [\<lparr>folder_id = ''fA'', folder_name = ''A'', courseIds = [''c1'', ''c2'']\<rparr>,
      \<lparr>folder_id = ''fB'', folder_name = ''B'', courseIds = []\<rparr>]"
    by (simp add: example_state_def initialState_def)
  have "folders (handleMoveCourseToFolder ''c1'' (Some ''fZ'') example_state) \<noteq>
        folders example_state"
    unfolding f g by simp
  then have ne: "handleMoveCourseToFolder ''c1'' (Some ''fZ'') example_state \<noteq> example_state"
    by auto
  have n: "findIndex (\<lambda>f. Some (folder_id f) = Some ''fZ'') (folders example_state) = None"
    by (simp add: example_state_def initialState_def)
  have k: "newCalls example_state (handleMoveCourseToFolder ''c1'' (Some ''fZ'') example_state) =
     [Storage_saveFolders
       [\<lparr>folder_id = ''fA'', folder_name = ''A'', courseIds = [''c2'']\<rparr>,
        \<lparr>folder_id = ''fB'', folder_name = ''B'', courseIds = []\<rparr>]]"
    by (simp add: newCalls_def handleMoveCourseToFolder_def truthy_def stripCourse_def Let_def
        example_state_def initialState_def)
  show ?thesis
    by (intro conjI n g f k ne)
qed

section \<open>Flashcards without an active course\<close>

text \<open>
  C10. When no course is active, \<open>handleGenerateLessonFlashcards\<close> returns at once: its
  first part ends the handler with the state as it was, so the marker
  \<open>generatingLessonFlashcardId\<close> is not touched and neither the generation client nor
  the storage service is called, whatever the client would have answered.
\<close>

theorem flashcards_without_active_course:
  assumes "activeCourse s = None"
  shows "handleGenerateLessonFlashcards_begin lessonId s = (s, None) \<and>
         handleGenerateLessonFlashcards lessonId r s = s \<and>
         newCalls s (handleGenerateLessonFlashcards lessonId r s) = []"
  using assms
  by (simp add: handleGenerateLessonFlashcards_def handleGenerateLessonFlashcards_begin_def
      newCalls_def)

theorem flashcards_without_active_course_witness:
  "activeCourse (example_state\<lparr>generatingLessonFlashcardId := Some ''l7''\<rparr>) = None \<and>
   handleGenerateLessonFlashcards ''l1'' (Inr [''card''])
     (example_state\<lparr>generatingLessonFlashcardId := Some ''l7''\<rparr>) =
     example_state\<lparr>generatingLessonFlashcardId := Some ''l7''\<rparr> \<and>
   generatingLessonFlashcardId (handleGenerateLessonFlashcards ''l1'' (Inr [''card''])
     (example_state\<lparr>generatingLessonFlashcardId := Some ''l7''\<rparr>)) = Some ''l7''"
proof -
  have h: "activeCourse (example_state\<lparr>generatingLessonFlashcardId := Some ''l7''\<rparr>) = None"
    by (simp add: example_state_def initialState_def)
  from flashcards_without_active_course [OF h, of "''l1''" "Inr [''card'']"]
  have "handleGenerateLessonFlashcards ''l1'' (Inr [''card''])
     (example_state\<lparr>generatingLessonFlashcardId := Some ''l7''\<rparr>) =
     example_state\<lparr>generatingLessonFlashcardId := Some ''l7''\<rparr>"
    by blast
  with h show ?thesis by simp
qed

end
